theory Spec2Isabelle
  imports Main
begin

section \<open>The Open vSwitch network driver (ovs/driver.go)\<close>

text \<open>
  A shallow embedding of the lifecycle handlers of \<^verbatim>\<open>ovs/driver.go\<close>. Go strings are byte
  sequences and are modelled as \<^typ>\<open>string\<close>; Go's \<^verbatim>\<open>int\<close> is modelled as \<^typ>\<open>int\<close>;
  a Go map is a partial function (reading a \<^verbatim>\<open>nil\<close> map behaves like reading an empty one).
  A handler returns a value, returns an \<^verbatim>\<open>error\<close>, or panics; all three are results of the
  model. The driver is mutated in place by the source; the model passes it explicitly.
\<close>

subsection \<open>Constants\<close>

definition ovsPortPrefix :: string where
  "ovsPortPrefix = ''ovs-veth0-''"

definition bridgePrefix :: string where
  "bridgePrefix = ''ovsbr-''"

definition containerEthName :: string where
  "containerEthName = ''eth''"

definition optionKey :: string where
  "optionKey = ''com.docker.network.generic''"

definition mtuOption :: string where
  "mtuOption = ''net.gopher.ovs.bridge.mtu''"

definition modeOption :: string where
  "modeOption = ''net.gopher.ovs.bridge.mode''"

definition bridgeNameOption :: string where
  "bridgeNameOption = ''net.gopher.ovs.bridge.name''"

definition bindInterfaceOption :: string where
  "bindInterfaceOption = ''net.gopher.ovs.bridge.bind_interface''"

definition modeNAT :: string where
  "modeNAT = ''nat''"

definition modeFlat :: string where
  "modeFlat = ''flat''"

definition defaultMTU :: int where
  "defaultMTU = 1500"

definition defaultMode :: string where
  "defaultMode = modeNAT"

definition validModes :: "string \<Rightarrow> bool option" where
  "validModes = [modeNAT \<mapsto> True, modeFlat \<mapsto> True]"

subsection \<open>Results: a value, an error, or a panic\<close>

text \<open>
  An \<^verbatim>\<open>error\<close> value is identified with its message (\<^verbatim>\<open>fmt.Errorf\<close> builds one from a
  format; the collaborators return theirs ready-made). The run-time panics the handlers
  can raise themselves are the dereference of a \<^verbatim>\<open>nil\<close> pointer, an index beyond the end of
  a slice, and a slice expression beyond the end of a string.
\<close>

datatype error = Errorf string

datatype panic = NilDereference | IndexOutOfRange | SliceBoundsOutOfRange

datatype 'a result = Ok 'a | Error error | Panic panic

text \<open>
  \<^verbatim>\<open>if err != nil { return nil, err }\<close>: an error (and likewise a panic) of a callee leaves
  the function at once, with the state as it is at that point.
\<close>

definition propagate :: "'a result \<Rightarrow> 'd \<Rightarrow> ('a \<Rightarrow> 'b result \<times> 'd) \<Rightarrow> 'b result \<times> 'd" where
  "propagate r d k = (case r of Ok v \<Rightarrow> k v | Error e \<Rightarrow> (Error e, d) | Panic p \<Rightarrow> (Panic p, d))"

subsection \<open>strconv.Atoi\<close>

text \<open>
  Go's \<^verbatim>\<open>strconv.Atoi\<close> on a platform whose \<^verbatim>\<open>int\<close> has 64 bits: an optional sign, then one
  or more decimal digits, and a value that fits the type; anything else is an error.
\<close>

definition isDigit :: "char \<Rightarrow> bool" where
  "isDigit ch = (48 \<le> (of_char ch :: nat) \<and> (of_char ch :: nat) \<le> 57)"

fun parseDigits :: "nat \<Rightarrow> string \<Rightarrow> nat option" where
  "parseDigits n [] = Some n"
| "parseDigits n (ch # rest) =
     (if isDigit ch then parseDigits (n * 10 + (of_char ch - 48)) rest else None)"

definition Atoi :: "string \<Rightarrow> int option" where
  "Atoi s =
     (case s of
        [] \<Rightarrow> None
      | s0 # rest \<Rightarrow>
          (let neg = (s0 = CHR ''-'');
               body = (if s0 = CHR ''-'' \<or> s0 = CHR ''+'' then rest else s)
           in if body = [] then None
              else (case parseDigits 0 body of
                      None \<Rightarrow> None
                    | Some n \<Rightarrow>
                        (let v = (if neg then - int n else int n)
                         in if - (2 ^ 63) \<le> v \<and> v < 2 ^ 63 then Some v else None))))"

subsection \<open>Option resolution\<close>

text \<open>\<^verbatim>\<open>options[key]\<close> on a \<^verbatim>\<open>map[string]string\<close>: the empty string when the key is absent.\<close>

definition index_map :: "(string \<Rightarrow> string option) \<Rightarrow> string \<Rightarrow> string" where
  "index_map options key = (case options key of None \<Rightarrow> [] | Some v \<Rightarrow> v)"

text \<open>\<^verbatim>\<open>id[:5]\<close> panics when the string has fewer than five bytes.\<close>

definition truncateID :: "string \<Rightarrow> string result" where
  "truncateID ident = (if length ident < 5 then Panic SliceBoundsOutOfRange else Ok (take 5 ident))"

definition getBridgeMTU :: "(string \<Rightarrow> string option) \<Rightarrow> int result" where
  "getBridgeMTU options =
     (let bridgeMTU = defaultMTU;
          bridgeMTU = (case Atoi (index_map options mtuOption) of
                         Some mtu \<Rightarrow> mtu
                       | None \<Rightarrow> bridgeMTU)
      in Ok bridgeMTU)"

definition getBridgeName :: "string \<Rightarrow> (string \<Rightarrow> string option) \<Rightarrow> string result" where
  "getBridgeName ident options =
     (case truncateID ident of
        Panic p \<Rightarrow> Panic p
      | Error e \<Rightarrow> Error e
      | Ok truncated \<Rightarrow>
          (let bridgeName = bridgePrefix @ truncated;
               bridgeName = (case options bridgeNameOption of
                               Some name \<Rightarrow> name
                             | None \<Rightarrow> bridgeName)
           in Ok bridgeName))"

definition getBridgeMode :: "(string \<Rightarrow> string option) \<Rightarrow> string result" where
  "getBridgeMode options =
     (let bridgeMode = defaultMode
      in case options modeOption of
           Some mode \<Rightarrow>
             (case validModes mode of
                None \<Rightarrow> Error (Errorf (mode @ '' is not a valid mode''))
              | Some listed \<Rightarrow> Ok mode)
         | None \<Rightarrow> Ok bridgeMode)"

definition getBindInterface :: "(string \<Rightarrow> string option) \<Rightarrow> string result" where
  "getBindInterface options =
     (case options bindInterfaceOption of
        Some mode \<Rightarrow> Ok mode
      | None \<Rightarrow> Ok [])"

subsection \<open>Data\<close>

record NetworkState =
  BridgeName :: string
  MTU :: int
  Mode :: string
  Gateway :: string
  GatewayMask :: string
  FlatBindInterface :: string

text \<open>\<^verbatim>\<open>netlink.Veth\<close>: the link's name (\<^verbatim>\<open>LinkAttrs.Name\<close>) and the name of its peer.\<close>

record Veth =
  Name :: string
  PeerName :: string

text \<open>
  What \<^verbatim>\<open>InspectNetwork\<close> of the container runtime's client returns, as far as the driver
  reads it: \<^verbatim>\<open>network.Driver\<close>, \<^verbatim>\<open>network.Options\<close>, and the \<^verbatim>\<open>Gateway\<close> of every entry
  of \<^verbatim>\<open>network.IPAM.Config\<close>, in order.
\<close>

record NetworkResource =
  NetworkDriver :: string
  NetworkOptions :: "string \<Rightarrow> string option"
  IPAMConfigGateways :: "string list"

text \<open>
  A value of Go's \<^verbatim>\<open>interface{}\<close> as the JSON decoder produces it: a string, a nested
  \<^verbatim>\<open>map[string]interface{}\<close>, or something else.
\<close>

datatype iface = String string | Map "string \<Rightarrow> iface option" | Other

text \<open>
  The requests of the plugin API. Every request carries \<^verbatim>\<open>NetworkID\<close>, so the records
  extend one another; \<^verbatim>\<open>IPv4Data\<close> is a slice of pointers (\<open>None\<close> is \<^verbatim>\<open>nil\<close>), of which
  the driver reads the field \<^verbatim>\<open>Gateway\<close> only.
\<close>

record DeleteNetworkRequest =
  NetworkID :: string

record CreateNetworkRequest = DeleteNetworkRequest +
  Options :: "string \<Rightarrow> iface option"
  IPv4Data :: "string option list"

record LeaveRequest = DeleteNetworkRequest +
  EndpointID :: string

record JoinRequest = LeaveRequest +
  SandboxKey :: string

text \<open>\<^verbatim>\<open>dknet.JoinResponse\<close>: the two fields of \<^verbatim>\<open>InterfaceName\<close>, and \<^verbatim>\<open>Gateway\<close>.\<close>

record JoinResponse =
  SrcName :: string
  DstPrefix :: string
  ResponseGateway :: string

subsection \<open>The collaborators and the driver\<close>

text \<open>
  Every call the driver makes to the kernel (\<^verbatim>\<open>netlink\<close>), to the switch (the methods of
  \<^verbatim>\<open>ovsdber\<close> and \<^verbatim>\<open>initBridge\<close>) and to the container runtime (\<^verbatim>\<open>InspectNetwork\<close>) is
  recorded, in order.
\<close>

datatype call =
    LinkAddCall Veth
  | LinkSetUpCall Veth
  | LinkDelCall Veth
  | InspectNetworkCall string
  | InitBridgeCall string
  | DeleteBridgeCall string
  | AddOvsVethPortCall string string nat
  | DeletePortCall string string

text \<open>
  The collaborators are parameters of the model. \<^verbatim>\<open>initBridge\<close>, \<^verbatim>\<open>deleteBridge\<close>,
  \<^verbatim>\<open>addOvsVethPort\<close> and \<^verbatim>\<open>deletePort\<close> are methods of this package defined outside
  \<^verbatim>\<open>driver.go\<close>; \<^verbatim>\<open>netlink.LinkAdd\<close>, \<^verbatim>\<open>LinkSetUp\<close>, \<^verbatim>\<open>LinkDel\<close>, \<^verbatim>\<open>InspectNetwork\<close>,
  \<^verbatim>\<open>net.ParseIP(s).To4() != nil\<close> and \<^verbatim>\<open>fmt.Sprintf\<close> of a format with no operands are
  library calls. A call returns \<^verbatim>\<open>nil\<close> (\<open>None\<close>) or an error, and what it returns may
  depend on every call made before it; \<^verbatim>\<open>initBridge\<close> also sees the registry, which it
  reads and, the registry being owned by the orchestrator alone, does not change.
\<close>

record Collaborators =
  LinkAdd :: "call list \<Rightarrow> Veth \<Rightarrow> error option"
  LinkSetUp :: "call list \<Rightarrow> Veth \<Rightarrow> error option"
  LinkDel :: "call list \<Rightarrow> Veth \<Rightarrow> error option"
  InspectNetwork :: "call list \<Rightarrow> string \<Rightarrow> error + NetworkResource"
  ParseIPTo4 :: "string \<Rightarrow> bool"
  Sprintf :: "string \<Rightarrow> string"
  initBridge :: "call list \<Rightarrow> (string \<Rightarrow> NetworkState option) \<Rightarrow> string \<Rightarrow> error option"
  deleteBridge :: "call list \<Rightarrow> string \<Rightarrow> error option"
  addOvsVethPort :: "call list \<Rightarrow> string \<Rightarrow> string \<Rightarrow> nat \<Rightarrow> error option"
  deletePort :: "call list \<Rightarrow> string \<Rightarrow> string \<Rightarrow> error option"

text \<open>
  The driver: its name, whether \<^verbatim>\<open>dockerer.client\<close> is set (\<open>False\<close> is \<^verbatim>\<open>nil\<close>), the
  registry \<^verbatim>\<open>networks\<close>, and the calls made so far.
\<close>

record Driver =
  name :: string
  client :: bool
  networks :: "string \<Rightarrow> NetworkState option"
  calls :: "call list"

definition called :: "Driver \<Rightarrow> call \<Rightarrow> Driver" where
  "called d c = d\<lparr>calls := calls d @ [c]\<rparr>"

subsection \<open>The handlers\<close>

definition vethPair :: "string \<Rightarrow> Veth" where
  "vethPair suffix = \<lparr>Name = ovsPortPrefix @ suffix, PeerName = ''ethc'' @ suffix\<rparr>"

definition stringOptions :: "'a CreateNetworkRequest_scheme \<Rightarrow> (string \<Rightarrow> string option)" where
  "stringOptions create =
     (case Options create optionKey of
        Some (Map options) \<Rightarrow>
          (\<lambda>key. case options key of Some (String str) \<Rightarrow> Some str | _ \<Rightarrow> None)
      | _ \<Rightarrow> Map.empty)"

definition setupNetworkState ::
  "Collaborators \<Rightarrow> Driver \<Rightarrow> string \<Rightarrow> (string \<Rightarrow> string option) \<Rightarrow> string \<Rightarrow>
     NetworkState result \<times> Driver" where
  "setupNetworkState env d ident options gateway =
     propagate (getBridgeName ident options) d (\<lambda>bridgeName.
     propagate (getBridgeMTU options) d (\<lambda>mtu.
     propagate (getBridgeMode options) d (\<lambda>mode.
     let mask = ''24'' in
     propagate (getBindInterface options) d (\<lambda>bindInterface.
     let ns = \<lparr>BridgeName = bridgeName, MTU = mtu, Mode = mode, Gateway = gateway,
                GatewayMask = mask, FlatBindInterface = bindInterface\<rparr>;
         d1 = d\<lparr>networks := (networks d)(ident \<mapsto> ns)\<rparr>;
         d2 = called d1 (InitBridgeCall ident)
     in case initBridge env (calls d1) (networks d1) ident of
          Some err \<Rightarrow> (Error err, d2\<lparr>networks := (networks d2)(ident := None)\<rparr>)
        | None \<Rightarrow> (Ok ns, d2)))))"

text \<open>The loop over \<^verbatim>\<open>network.IPAM.Config\<close>: the first gateway that is an IPv4 address.\<close>

fun firstIPv4Gateway :: "Collaborators \<Rightarrow> string list \<Rightarrow> string" where
  "firstIPv4Gateway env [] = []"
| "firstIPv4Gateway env (gw # rest) =
     (if ParseIPTo4 env gw then gw else firstIPv4Gateway env rest)"

definition findNetworkState ::
  "Collaborators \<Rightarrow> Driver \<Rightarrow> string \<Rightarrow> NetworkState result \<times> Driver" where
  "findNetworkState env d ident =
     (case networks d ident of
        Some ns \<Rightarrow> (Ok ns, d)
      | None \<Rightarrow>
          if \<not> client d
          then (Error (Errorf ''Docker client disabled; unable to get network state''), d)
          else
            (let d1 = called d (InspectNetworkCall ident)
             in case InspectNetwork env (calls d) ident of
                  Inl err \<Rightarrow> (Error err, d1)
                | Inr network \<Rightarrow>
                    if NetworkDriver network \<noteq> name d
                    then (Error (Errorf ''Not our network''), d1)
                    else
                      (let gateway = firstIPv4Gateway env (IPAMConfigGateways network)
                       in setupNetworkState env d1 ident (NetworkOptions network) gateway)))"

text \<open>
  The arguments of the call to \<^verbatim>\<open>setupNetworkState\<close> are evaluated first:
  \<^verbatim>\<open>r.IPv4Data[0].Gateway\<close> panics on an empty slice and on a \<^verbatim>\<open>nil\<close> first element.
\<close>

definition CreateNetwork ::
  "Collaborators \<Rightarrow> Driver \<Rightarrow> 'a CreateNetworkRequest_scheme \<Rightarrow> unit result \<times> Driver" where
  "CreateNetwork env d r =
     (case IPv4Data r of
        [] \<Rightarrow> (Panic IndexOutOfRange, d)
      | first # others \<Rightarrow>
          (case first of
             None \<Rightarrow> (Panic NilDereference, d)
           | Some gateway \<Rightarrow>
               (case setupNetworkState env d (NetworkID r) (stringOptions r) gateway of
                  (Ok ns, d') \<Rightarrow> (Ok (), d')
                | (Error err, d') \<Rightarrow> (Error err, d')
                | (Panic p, d') \<Rightarrow> (Panic p, d'))))"

text \<open>\<^verbatim>\<open>d.networks[r.NetworkID].BridgeName\<close> dereferences \<^verbatim>\<open>nil\<close> when the entry is missing.\<close>

definition DeleteNetwork ::
  "Collaborators \<Rightarrow> Driver \<Rightarrow> 'a DeleteNetworkRequest_scheme \<Rightarrow> unit result \<times> Driver" where
  "DeleteNetwork env d r =
     (case networks d (NetworkID r) of
        None \<Rightarrow> (Panic NilDereference, d)
      | Some ns \<Rightarrow>
          (let bridgeName = BridgeName ns;
               d1 = called d (DeleteBridgeCall bridgeName)
           in case deleteBridge env (calls d) bridgeName of
                Some err \<Rightarrow> (Error err, d1)
              | None \<Rightarrow> (Ok (), d1\<lparr>networks := (networks d1)(NetworkID r := None)\<rparr>)))"

definition Join ::
  "Collaborators \<Rightarrow> Driver \<Rightarrow> 'a JoinRequest_scheme \<Rightarrow> JoinResponse result \<times> Driver" where
  "Join env d r =
     propagate (truncateID (EndpointID r)) d (\<lambda>suffix.
     let localVethPair = vethPair suffix;
         d1 = called d (LinkAddCall localVethPair)
     in case LinkAdd env (calls d) localVethPair of
          Some err \<Rightarrow> (Error err, d1)
        | None \<Rightarrow>
            (let d2 = called d1 (LinkSetUpCall localVethPair)
             in case LinkSetUp env (calls d1) localVethPair of
                  Some err \<Rightarrow> (Error err, d2)
                | None \<Rightarrow>
                    (case findNetworkState env d2 (NetworkID r) of
                       (Panic p, d3) \<Rightarrow> (Panic p, d3)
                     | (Error err, d3) \<Rightarrow> (Error err, d3)
                     | (Ok ns, d3) \<Rightarrow>
                         (let bridgeName = BridgeName ns;
                              d4 = called d3 (AddOvsVethPortCall bridgeName (Name localVethPair) 0)
                          in case addOvsVethPort env (calls d3) bridgeName (Name localVethPair) 0 of
                               Some err \<Rightarrow> (Error err, d4)
                             | None \<Rightarrow>
                                 (Ok \<lparr>SrcName = PeerName localVethPair,
                                      DstPrefix = containerEthName,
                                      ResponseGateway = Gateway ns\<rparr>, d4)))))"

text \<open>
  The error of \<^verbatim>\<open>netlink.LinkDel\<close> is logged and the handler goes on; the port's name is
  \<^verbatim>\<open>fmt.Sprintf\<close> of the concatenation, used as the format.
\<close>

definition Leave ::
  "Collaborators \<Rightarrow> Driver \<Rightarrow> 'a LeaveRequest_scheme \<Rightarrow> unit result \<times> Driver" where
  "Leave env d r =
     propagate (truncateID (EndpointID r)) d (\<lambda>suffix.
     let localVethPair = vethPair suffix;
         d1 = (case LinkDel env (calls d) localVethPair of
                 Some err \<Rightarrow> called d (LinkDelCall localVethPair)
               | None \<Rightarrow> called d (LinkDelCall localVethPair))
     in propagate (truncateID (EndpointID r)) d1 (\<lambda>truncated.
        let portID = Sprintf env (ovsPortPrefix @ truncated)
        in case networks d1 (NetworkID r) of
             None \<Rightarrow> (Panic NilDereference, d1)
           | Some ns \<Rightarrow>
               (let bridgeName = BridgeName ns;
                    d2 = called d1 (DeletePortCall bridgeName portID)
                in case deletePort env (calls d1) bridgeName portID of
                     Some err \<Rightarrow> (Error err, d2)
                   | None \<Rightarrow> (Ok (), d2))))"

subsection \<open>Classifying the recorded calls\<close>

text \<open>
  A fallback lookup is a call to the container runtime's \<^verbatim>\<open>InspectNetwork\<close>; the kernel is
  changed through \<^verbatim>\<open>netlink\<close>; the switch is changed through the bridge and port methods.
  \<open>newCalls d d'\<close> are the calls made between the states \<open>d\<close> and \<open>d'\<close> of the driver.
\<close>

definition isFallbackLookup :: "call \<Rightarrow> bool" where
  "isFallbackLookup c = (case c of InspectNetworkCall ident \<Rightarrow> True | _ \<Rightarrow> False)"

definition isKernelMutation :: "call \<Rightarrow> bool" where
  "isKernelMutation c =
     (case c of LinkAddCall v \<Rightarrow> True | LinkSetUpCall v \<Rightarrow> True | LinkDelCall v \<Rightarrow> True
      | _ \<Rightarrow> False)"

definition isSwitchMutation :: "call \<Rightarrow> bool" where
  "isSwitchMutation c =
     (case c of InitBridgeCall ident \<Rightarrow> True | DeleteBridgeCall b \<Rightarrow> True
      | AddOvsVethPortCall b p t \<Rightarrow> True | DeletePortCall b p \<Rightarrow> True | _ \<Rightarrow> False)"

definition newCalls :: "Driver \<Rightarrow> Driver \<Rightarrow> call list" where
  "newCalls d d' = drop (length (calls d)) (calls d')"

definition isError :: "'a result \<Rightarrow> bool" where
  "isError res = (case res of Error err \<Rightarrow> True | _ \<Rightarrow> False)"

subsection \<open>Scenarios\<close>

text \<open>
  Concrete collaborators, drivers and requests on which the handlers are run below. In
  \<open>allSucceed\<close> every kernel and switch call succeeds, and the container runtime knows
  every network as one of the driver \<open>bridge\<close>; \<open>bridgeInitFails\<close> and \<open>detachFails\<close>
  differ from it in the calls their names say. \<open>freshDriver\<close> is the driver \<open>ovs\<close>
  right after start; \<open>net12Created\<close> is that driver after it has created the network
  \<open>net12\<close> with no options and the gateway \<open>10.0.0.1\<close>; \<open>net1Registered\<close> has an
  entry for the four-byte identifier \<open>net1\<close> put into the registry directly.
\<close>

definition foreignNetwork :: NetworkResource where
  "foreignNetwork =
     \<lparr>NetworkDriver = ''bridge'', NetworkOptions = Map.empty, IPAMConfigGateways = [''10.0.0.1'']\<rparr>"

definition allSucceed :: Collaborators where
  "allSucceed =
     \<lparr>LinkAdd = (\<lambda>history v. None),
      LinkSetUp = (\<lambda>history v. None),
      LinkDel = (\<lambda>history v. None),
      InspectNetwork = (\<lambda>history ident. Inr foreignNetwork),
      ParseIPTo4 = (\<lambda>s. s = ''10.0.0.1''),
      Sprintf = (\<lambda>format. format),
      initBridge = (\<lambda>history registry ident. None),
      deleteBridge = (\<lambda>history bridge. None),
      addOvsVethPort = (\<lambda>history bridge port tag. None),
      deletePort = (\<lambda>history bridge port. None)\<rparr>"

definition bridgeInitFails :: Collaborators where
  "bridgeInitFails =
     allSucceed\<lparr>initBridge := (\<lambda>history registry ident. Some (Errorf ''bridge exists''))\<rparr>"


definition freshDriver :: Driver where
  "freshDriver = \<lparr>name = ''ovs'', client = True, networks = Map.empty, calls = []\<rparr>"

definition net12State :: NetworkState where
  "net12State =
     \<lparr>BridgeName = ''ovsbr-net12'', MTU = 1500, Mode = ''nat'', Gateway = ''10.0.0.1'',
      GatewayMask = ''24'', FlatBindInterface = []\<rparr>"

definition net12Created :: Driver where
  "net12Created = freshDriver\<lparr>networks := [''net12'' \<mapsto> net12State], calls := [InitBridgeCall ''net12'']\<rparr>"

definition net1Registered :: Driver where
  "net1Registered =
     freshDriver\<lparr>networks :=
       [''net1'' \<mapsto> \<lparr>BridgeName = ''ovsbr-net1'', MTU = 1500, Mode = ''nat'',
                     Gateway = ''10.0.0.1'', GatewayMask = ''24'', FlatBindInterface = []\<rparr>]\<rparr>"

definition endpoVeth :: Veth where
  "endpoVeth = \<lparr>Name = ''ovs-veth0-endpo'', PeerName = ''ethcendpo''\<rparr>"

definition createNet1 :: CreateNetworkRequest where
  "createNet1 = \<lparr>NetworkID = ''net1'', Options = Map.empty, IPv4Data = [Some ''10.0.0.1'']\<rparr>"

definition createNet12 :: CreateNetworkRequest where
  "createNet12 = \<lparr>NetworkID = ''net12'', Options = Map.empty, IPv4Data = [Some ''10.0.0.1'']\<rparr>"

definition createWithoutIPv4 :: CreateNetworkRequest where
  "createWithoutIPv4 = \<lparr>NetworkID = ''net12'', Options = Map.empty, IPv4Data = []\<rparr>"

definition joinNet1 :: JoinRequest where
  "joinNet1 = \<lparr>NetworkID = ''net1'', EndpointID = ''endpoint12345'', SandboxKey = []\<rparr>"

definition joinNet12 :: JoinRequest where
  "joinNet12 = \<lparr>NetworkID = ''net12'', EndpointID = ''endpoint12345'', SandboxKey = []\<rparr>"

definition leaveNet12 :: LeaveRequest where
  "leaveNet12 = \<lparr>NetworkID = ''net12'', EndpointID = ''endpoint12345''\<rparr>"

definition deleteNet12 :: DeleteNetworkRequest where
  "deleteNet12 = \<lparr>NetworkID = ''net12''\<rparr>"

section \<open>Properties\<close>

subsection \<open>Helper facts\<close>

lemma propagate_simps [simp]:
  "propagate (Ok v) d k = k v"
  "propagate (Error e) d k = (Error e, d)"
  "propagate (Panic p) d k = (Panic p, d)"
  by (simp_all add: propagate_def)

lemma truncateID_long: "5 \<le> length s \<Longrightarrow> truncateID s = Ok (take 5 s)"
  by (simp add: truncateID_def)

lemma truncateID_short: "length s < 5 \<Longrightarrow> truncateID s = Panic SliceBoundsOutOfRange"
  by (simp add: truncateID_def)

lemma Atoi_Nil: "Atoi [] = None"
  by (simp add: Atoi_def)

lemma isFallbackLookup_simps [simp]:
  "isFallbackLookup (InspectNetworkCall ident)"
  "\<not> isFallbackLookup (LinkAddCall v)"
  "\<not> isFallbackLookup (LinkSetUpCall v)"
  "\<not> isFallbackLookup (LinkDelCall v)"
  "\<not> isFallbackLookup (InitBridgeCall ident)"
  "\<not> isFallbackLookup (DeleteBridgeCall b)"
  "\<not> isFallbackLookup (AddOvsVethPortCall b p t)"
  "\<not> isFallbackLookup (DeletePortCall b p)"
  by (simp_all add: isFallbackLookup_def)

lemma isKernelMutation_simps [simp]:
  "\<not> isKernelMutation (InspectNetworkCall ident)"
  "isKernelMutation (LinkAddCall v)"
  "isKernelMutation (LinkSetUpCall v)"
  "isKernelMutation (LinkDelCall v)"
  "\<not> isKernelMutation (InitBridgeCall ident)"
  "\<not> isKernelMutation (DeleteBridgeCall b)"
  "\<not> isKernelMutation (AddOvsVethPortCall b p t)"
  "\<not> isKernelMutation (DeletePortCall b p)"
  by (simp_all add: isKernelMutation_def)

lemma isSwitchMutation_simps [simp]:
  "\<not> isSwitchMutation (InspectNetworkCall ident)"
  "\<not> isSwitchMutation (LinkAddCall v)"
  "\<not> isSwitchMutation (LinkSetUpCall v)"
  "\<not> isSwitchMutation (LinkDelCall v)"
  "isSwitchMutation (InitBridgeCall ident)"
  "isSwitchMutation (DeleteBridgeCall b)"
  "isSwitchMutation (AddOvsVethPortCall b p t)"
  "isSwitchMutation (DeletePortCall b p)"
  by (simp_all add: isSwitchMutation_def)

lemma getBridgeMTU_empty: "getBridgeMTU Map.empty = Ok 1500"
  by (simp add: getBridgeMTU_def index_map_def defaultMTU_def Atoi_Nil)

lemma getBridgeMode_empty: "getBridgeMode Map.empty = Ok ''nat''"
  by (simp add: getBridgeMode_def defaultMode_def modeNAT_def)

lemma getBindInterface_empty: "getBindInterface Map.empty = Ok []"
  by (simp add: getBindInterface_def)

lemma getBridgeName_empty:
  "5 \<le> length ident \<Longrightarrow> getBridgeName ident Map.empty = Ok (''ovsbr-'' @ take 5 ident)"
  by (simp add: getBridgeName_def truncateID_long bridgePrefix_def)

lemma getBridgeName_short:
  "length ident < 5 \<Longrightarrow> getBridgeName ident options = Panic SliceBoundsOutOfRange"
  by (simp add: getBridgeName_def truncateID_short)

lemma setupNetworkState_short:
  "length ident < 5 \<Longrightarrow>
     setupNetworkState env d ident options gateway = (Panic SliceBoundsOutOfRange, d)"
  by (simp add: setupNetworkState_def getBridgeName_short)

lemma getBridgeMTU_Ok: "\<exists>mtu. getBridgeMTU options = Ok mtu"
  by (simp add: getBridgeMTU_def)

lemma getBindInterface_Ok: "\<exists>b. getBindInterface options = Ok b"
  by (simp add: getBindInterface_def split: option.splits)

lemma vethPair_endpo: "vethPair (take 5 ''endpoint12345'') = endpoVeth"
  by (simp add: vethPair_def endpoVeth_def ovsPortPrefix_def)

lemma created_net12: "CreateNetwork allSucceed freshDriver createNet12 = (Ok (), net12Created)"
  by (simp add: CreateNetwork_def createNet12_def stringOptions_def setupNetworkState_def
      getBridgeName_empty getBridgeMTU_empty getBridgeMode_empty getBindInterface_empty
      called_def Let_def allSucceed_def freshDriver_def net12Created_def net12State_def)

subsection \<open>Mode resolution\<close>

lemma validModes_iff: "validModes mode = None \<longleftrightarrow> mode \<noteq> ''nat'' \<and> mode \<noteq> ''flat''"
  by (simp add: validModes_def modeNAT_def modeFlat_def)

text \<open>
  Claim C5. Mode resolution returns \<open>nat\<close> when the mode key is absent, returns the given
  value unchanged when it is \<open>nat\<close> or \<open>flat\<close>, and fails for every other value of the
  mode key (the empty string included) with the error \<open><value> is not a valid mode\<close>,
  the driver's invalid-configuration error.
\<close>

theorem getBridgeMode_resolution:
  "(options modeOption = None \<longrightarrow> getBridgeMode options = Ok ''nat'') \<and>
   (options modeOption = Some mode \<and> (mode = ''nat'' \<or> mode = ''flat'') \<longrightarrow>
      getBridgeMode options = Ok mode) \<and>
   (options modeOption = Some mode \<and> mode \<noteq> ''nat'' \<and> mode \<noteq> ''flat'' \<longrightarrow>
      getBridgeMode options = Error (Errorf (mode @ '' is not a valid mode'')))"
proof (intro conjI impI)
  assume "options modeOption = None"
  then show "getBridgeMode options = Ok ''nat''"
    by (simp add: getBridgeMode_def defaultMode_def modeNAT_def)
next
  assume a: "options modeOption = Some mode \<and> (mode = ''nat'' \<or> mode = ''flat'')"
  then have "validModes mode \<noteq> None"
    using validModes_iff [of mode] by blast
  with a show "getBridgeMode options = Ok mode"
    by (auto simp: getBridgeMode_def)
next
  assume a: "options modeOption = Some mode \<and> mode \<noteq> ''nat'' \<and> mode \<noteq> ''flat''"
  then have "validModes mode = None"
    using validModes_iff [of mode] by blast
  with a show "getBridgeMode options = Error (Errorf (mode @ '' is not a valid mode''))"
    by (simp add: getBridgeMode_def)
qed

text \<open>
  Claim C5 on concrete option maps: no mode, \<open>flat\<close>, \<open>nat\<close>, and the unrecognised
  mode \<open>bridge\<close>.
\<close>

theorem getBridgeMode_resolution_witness:
  "getBridgeMode Map.empty = Ok ''nat'' \<and>
   getBridgeMode [modeOption \<mapsto> ''flat''] = Ok ''flat'' \<and>
   getBridgeMode [modeOption \<mapsto> ''nat''] = Ok ''nat'' \<and>
   getBridgeMode [modeOption \<mapsto> ''bridge''] = Error (Errorf ''bridge is not a valid mode'')"
  using getBridgeMode_resolution [of Map.empty]
    getBridgeMode_resolution [of "[modeOption \<mapsto> ''flat'']" "''flat''"]
    getBridgeMode_resolution [of "[modeOption \<mapsto> ''nat'']" "''nat''"]
    getBridgeMode_resolution [of "[modeOption \<mapsto> ''bridge'']" "''bridge''"]
  by simp

subsection \<open>MTU resolution\<close>

text \<open>
  Claim C6. When the options lack the MTU key, or its value does not parse as an integer,
  MTU resolution returns 1500; when the value parses, the parsed integer is returned as
  it is, whatever its size or sign; and MTU resolution never returns an error (nor does it
  panic).
\<close>

theorem getBridgeMTU_resolution:
  "(options mtuOption = None \<longrightarrow> getBridgeMTU options = Ok 1500) \<and>
   (options mtuOption = Some v \<and> Atoi v = None \<longrightarrow> getBridgeMTU options = Ok 1500) \<and>
   (options mtuOption = Some v \<and> Atoi v = Some n \<longrightarrow> getBridgeMTU options = Ok n) \<and>
   (\<forall>err. getBridgeMTU options \<noteq> Error err) \<and>
   (\<forall>p. getBridgeMTU options \<noteq> Panic p)"
  by (simp add: getBridgeMTU_def index_map_def defaultMTU_def Atoi_Nil)

text \<open>
  Claim C6 on concrete option maps: no key, a value that is not a number, and two numbers
  no network interface accepts as an MTU, a negative one and a huge one, both returned as
  parsed.
\<close>

theorem getBridgeMTU_resolution_witness:
  "getBridgeMTU Map.empty = Ok 1500 \<and>
   getBridgeMTU [mtuOption \<mapsto> ''jumbo''] = Ok 1500 \<and>
   getBridgeMTU [mtuOption \<mapsto> ''-7''] = Ok (- 7) \<and>
   getBridgeMTU [mtuOption \<mapsto> ''99999999''] = Ok 99999999"
proof -
  have jumbo: "Atoi ''jumbo'' = None"
    by (simp add: Atoi_def isDigit_def)
  have negative: "Atoi ''-7'' = Some (- 7)"
    by (simp add: Atoi_def isDigit_def)
  have huge: "Atoi ''99999999'' = Some 99999999"
    by (simp add: Atoi_def isDigit_def)
  show ?thesis
    using getBridgeMTU_resolution [of Map.empty]
      getBridgeMTU_resolution [of "[mtuOption \<mapsto> ''jumbo'']" "''jumbo''"]
      getBridgeMTU_resolution [of "[mtuOption \<mapsto> ''-7'']" "''-7''" "- 7"]
      getBridgeMTU_resolution [of "[mtuOption \<mapsto> ''99999999'']" "''99999999''" 99999999]
      jumbo negative huge
    by simp
qed

subsection \<open>CreateNetwork\<close>

text \<open>
  Claim C1. In a CreateNetwork call whose request carries an IPv4 gateway, whose
  configuration resolves (bridge name, MTU, mode and bind interface are all obtained) and
  whose bridge initialisation, attempted on the registry holding the new entry, fails
  with \<open>err\<close>: the call returns \<open>err\<close>, and afterwards the registry has no entry for the
  network identifier. The rest of the driver is as before, but for the recorded call.
\<close>

theorem CreateNetwork_rollback:
  assumes data: "IPv4Data r = Some gateway # others"
    and bname: "getBridgeName (NetworkID r) (stringOptions r) = Ok bridgeName"
    and mtu: "getBridgeMTU (stringOptions r) = Ok mtu"
    and mode: "getBridgeMode (stringOptions r) = Ok mode"
    and bind: "getBindInterface (stringOptions r) = Ok bindInterface"
    and init: "initBridge env (calls d)
                 ((networks d)(NetworkID r \<mapsto>
                    \<lparr>BridgeName = bridgeName, MTU = mtu, Mode = mode, Gateway = gateway,
                     GatewayMask = ''24'', FlatBindInterface = bindInterface\<rparr>))
                 (NetworkID r) = Some err"
  shows "fst (CreateNetwork env d r) = Error err \<and>
         networks (snd (CreateNetwork env d r)) (NetworkID r) = None \<and>
         snd (CreateNetwork env d r) =
           d\<lparr>networks := (networks d)(NetworkID r := None),
             calls := calls d @ [InitBridgeCall (NetworkID r)]\<rparr>"
  using assms
  by (simp add: CreateNetwork_def setupNetworkState_def called_def)

text \<open>
  Claim C1 on the network \<open>net12\<close>, created on a switch that refuses to initialise the
  bridge.
\<close>

theorem CreateNetwork_rollback_witness:
  "fst (CreateNetwork bridgeInitFails freshDriver createNet12) = Error (Errorf ''bridge exists'') \<and>
   networks (snd (CreateNetwork bridgeInitFails freshDriver createNet12)) ''net12'' = None \<and>
   snd (CreateNetwork bridgeInitFails freshDriver createNet12) =
     freshDriver\<lparr>calls := [InitBridgeCall ''net12'']\<rparr>"
proof -
  have opts: "stringOptions createNet12 = Map.empty"
    by (simp add: stringOptions_def createNet12_def)
  have data: "IPv4Data createNet12 = [Some ''10.0.0.1'']"
    by (simp add: createNet12_def)
  have ident: "NetworkID createNet12 = ''net12''"
    by (simp add: createNet12_def)
  have bname: "getBridgeName (NetworkID createNet12) (stringOptions createNet12) = Ok ''ovsbr-net12''"
    by (simp add: opts ident getBridgeName_empty)
  have mtu: "getBridgeMTU (stringOptions createNet12) = Ok 1500"
    by (simp add: opts getBridgeMTU_empty)
  have mode: "getBridgeMode (stringOptions createNet12) = Ok ''nat''"
    by (simp add: opts getBridgeMode_empty)
  have bind: "getBindInterface (stringOptions createNet12) = Ok []"
    by (simp add: opts getBindInterface_empty)
  have init: "initBridge bridgeInitFails (calls freshDriver)
                 ((networks freshDriver)(NetworkID createNet12 \<mapsto>
                    \<lparr>BridgeName = ''ovsbr-net12'', MTU = 1500, Mode = ''nat'', Gateway = ''10.0.0.1'',
                     GatewayMask = ''24'', FlatBindInterface = []\<rparr>))
                 (NetworkID createNet12) = Some (Errorf ''bridge exists'')"
    by (simp add: bridgeInitFails_def)
  show ?thesis
    using CreateNetwork_rollback [OF data bname mtu mode bind init]
    by (simp add: ident freshDriver_def)
qed

text \<open>
  Claim C7, amended. CreateNetwork with a network identifier of at least five bytes, no
  driver options and an IPAM gateway (\<open>10.0.0.1\<close> in the scenario) succeeds, when the
  bridge initialisation succeeds, and registers under the identifier the state with the
  bridge name \<open>ovsbr-\<close> followed by the first five bytes of the identifier, MTU 1500,
  mode \<open>nat\<close>, the given gateway, mask \<open>24\<close> and no bind interface.
\<close>

theorem CreateNetwork_defaults:
  assumes "5 \<le> length (NetworkID r)"
    and "stringOptions r = Map.empty"
    and "IPv4Data r = Some gateway # others"
    and "initBridge env (calls d)
           ((networks d)(NetworkID r \<mapsto>
              \<lparr>BridgeName = bridgePrefix @ take 5 (NetworkID r), MTU = 1500, Mode = ''nat'',
               Gateway = gateway, GatewayMask = ''24'', FlatBindInterface = []\<rparr>))
           (NetworkID r) = None"
  shows "fst (CreateNetwork env d r) = Ok () \<and>
         networks (snd (CreateNetwork env d r)) (NetworkID r) =
           Some \<lparr>BridgeName = bridgePrefix @ take 5 (NetworkID r), MTU = 1500, Mode = ''nat'',
                 Gateway = gateway, GatewayMask = ''24'', FlatBindInterface = []\<rparr>"
  using assms
  by (simp add: CreateNetwork_def setupNetworkState_def called_def getBridgeName_empty
      getBridgeMTU_empty getBridgeMode_empty getBindInterface_empty bridgePrefix_def Let_def)

text \<open>
  Claim C7, amended, on the scenario with the five-byte identifier \<open>net12\<close> and the gateway \<open>10.0.0.1\<close>.
\<close>

theorem CreateNetwork_defaults_witness:
  "fst (CreateNetwork allSucceed freshDriver createNet12) = Ok () \<and>
   networks (snd (CreateNetwork allSucceed freshDriver createNet12)) ''net12'' =
     Some \<lparr>BridgeName = ''ovsbr-net12'', MTU = 1500, Mode = ''nat'',
           Gateway = ''10.0.0.1'', GatewayMask = ''24'', FlatBindInterface = []\<rparr>"
proof -
  have len: "5 \<le> length (NetworkID createNet12)"
    by (simp add: createNet12_def)
  have opts: "stringOptions createNet12 = Map.empty"
    by (simp add: stringOptions_def createNet12_def)
  have data: "IPv4Data createNet12 = Some ''10.0.0.1'' # []"
    by (simp add: createNet12_def)
  have init: "initBridge allSucceed (calls freshDriver)
           ((networks freshDriver)(NetworkID createNet12 \<mapsto>
              \<lparr>BridgeName = bridgePrefix @ take 5 (NetworkID createNet12), MTU = 1500, Mode = ''nat'',
               Gateway = ''10.0.0.1'', GatewayMask = ''24'', FlatBindInterface = []\<rparr>))
           (NetworkID createNet12) = None"
    by (simp add: allSucceed_def)
  show ?thesis
    using CreateNetwork_defaults [OF len opts data init]
    by (simp add: createNet12_def bridgePrefix_def)
qed

text \<open>
  Claim C7 as stated fails on its own scenario: the identifier \<open>net1\<close> has four bytes, so
  \<^verbatim>\<open>truncateID\<close> panics on \<^verbatim>\<open>id[:5]\<close> while the bridge name is derived; the call does not
  succeed and nothing is registered.
\<close>

theorem CreateNetwork_net1_panics:
  "CreateNetwork allSucceed freshDriver createNet1 = (Panic SliceBoundsOutOfRange, freshDriver) \<and>
   networks freshDriver ''net1'' = None"
  by (simp add: CreateNetwork_def createNet1_def setupNetworkState_short freshDriver_def)

text \<open>
  Claim C10. A CreateNetwork request whose IPv4 IPAM data is empty makes the handler
  panic on \<^verbatim>\<open>r.IPv4Data[0]\<close>, with an index out of range: no error is returned, and the
  driver is untouched.
\<close>

theorem CreateNetwork_empty_IPv4Data:
  "IPv4Data r = [] \<Longrightarrow> CreateNetwork env d r = (Panic IndexOutOfRange, d)"
  by (simp add: CreateNetwork_def)

text \<open>
  Claim C10 on a request for \<open>net12\<close> with no IPv4 data.
\<close>

theorem CreateNetwork_empty_IPv4Data_witness:
  "IPv4Data createWithoutIPv4 = [] \<and>
   CreateNetwork allSucceed freshDriver createWithoutIPv4 = (Panic IndexOutOfRange, freshDriver)"
proof -
  have h: "IPv4Data createWithoutIPv4 = []"
    by (simp add: createWithoutIPv4_def)
  show ?thesis
    using h CreateNetwork_empty_IPv4Data [OF h, of allSucceed freshDriver] by simp
qed

subsection \<open>DeleteNetwork\<close>

text \<open>
  Claim C3, as the code has it. A DeleteNetwork call whose network identifier has no
  registry entry does not return an error: \<^verbatim>\<open>d.networks[r.NetworkID].BridgeName\<close>
  dereferences \<^verbatim>\<open>nil\<close> and the handler panics. The driver is unchanged, so no bridge
  teardown was attempted.
\<close>

theorem DeleteNetwork_unregistered:
  "networks d (NetworkID r) = None \<Longrightarrow>
     DeleteNetwork env d r = (Panic NilDereference, d) \<and> \<not> isError (fst (DeleteNetwork env d r))"
  by (simp add: DeleteNetwork_def isError_def)

text \<open>
  Claim C3 on the deletion of \<open>net12\<close> by a driver that has just started, as after a restart of the plugin.
\<close>

theorem DeleteNetwork_unregistered_witness:
  "networks freshDriver (NetworkID deleteNet12) = None \<and>
   DeleteNetwork allSucceed freshDriver deleteNet12 = (Panic NilDereference, freshDriver) \<and>
   \<not> isError (fst (DeleteNetwork allSucceed freshDriver deleteNet12))"
proof -
  have unreg: "networks freshDriver (NetworkID deleteNet12) = None"
    by (simp add: freshDriver_def)
  show ?thesis
    using unreg DeleteNetwork_unregistered [OF unreg, of allSucceed] by blast
qed

subsection \<open>Join\<close>

lemma setupNetworkState_calls:
  "calls (snd (setupNetworkState env d ident options gateway)) = calls d \<or>
   calls (snd (setupNetworkState env d ident options gateway)) = calls d @ [InitBridgeCall ident]"
proof (cases "getBridgeName ident options")
  case (Ok bridgeName)
  obtain mtu where mtu: "getBridgeMTU options = Ok mtu"
    using getBridgeMTU_Ok by blast
  obtain b where b: "getBindInterface options = Ok b"
    using getBindInterface_Ok by blast
  show ?thesis
    by (cases "getBridgeMode options")
      (simp_all add: setupNetworkState_def Ok mtu b called_def Let_def split: option.splits)
qed (simp_all add: setupNetworkState_def)

lemma findNetworkState_unregistered_calls:
  assumes "networks d ident = None" and "client d"
  shows "calls (snd (findNetworkState env d ident)) = calls d @ [InspectNetworkCall ident] \<or>
         calls (snd (findNetworkState env d ident)) =
           calls d @ [InspectNetworkCall ident, InitBridgeCall ident]"
proof (cases "InspectNetwork env (calls d) ident")
  case (Inl err)
  with assms show ?thesis
    by (simp add: findNetworkState_def called_def)
next
  case (Inr network)
  show ?thesis
  proof (cases "NetworkDriver network = name d")
    case False
    with assms Inr show ?thesis
      by (simp add: findNetworkState_def called_def)
  next
    case True
    let ?d1 = "called d (InspectNetworkCall ident)"
    let ?gateway = "firstIPv4Gateway env (IPAMConfigGateways network)"
    have eq: "findNetworkState env d ident =
                setupNetworkState env ?d1 ident (NetworkOptions network) ?gateway"
      using assms Inr True by (simp add: findNetworkState_def)
    show ?thesis
      using setupNetworkState_calls [of env ?d1 ident "NetworkOptions network" ?gateway]
      by (auto simp: eq called_def)
  qed
qed

lemma Join_linked:
  assumes "5 \<le> length (EndpointID r)"
    and "LinkAdd env (calls d) (vethPair (take 5 (EndpointID r))) = None"
    and "LinkSetUp env (calls d @ [LinkAddCall (vethPair (take 5 (EndpointID r)))])
           (vethPair (take 5 (EndpointID r))) = None"
  shows "Join env d r =
     (case findNetworkState env
             (d\<lparr>calls := calls d @ [LinkAddCall (vethPair (take 5 (EndpointID r))),
                                    LinkSetUpCall (vethPair (take 5 (EndpointID r)))]\<rparr>)
             (NetworkID r) of
        (Panic p, d3) \<Rightarrow> (Panic p, d3)
      | (Error err, d3) \<Rightarrow> (Error err, d3)
      | (Ok ns, d3) \<Rightarrow>
          (case addOvsVethPort env (calls d3) (BridgeName ns)
                  (Name (vethPair (take 5 (EndpointID r)))) 0 of
             Some err \<Rightarrow>
               (Error err,
                called d3 (AddOvsVethPortCall (BridgeName ns)
                             (Name (vethPair (take 5 (EndpointID r)))) 0))
           | None \<Rightarrow>
               (Ok \<lparr>SrcName = PeerName (vethPair (take 5 (EndpointID r))),
                    DstPrefix = containerEthName,
                    ResponseGateway = Gateway ns\<rparr>,
                called d3 (AddOvsVethPortCall (BridgeName ns)
                             (Name (vethPair (take 5 (EndpointID r)))) 0))))"
  using assms
  by (simp add: Join_def truncateID_long called_def Let_def
      split: prod.splits result.splits option.splits)

lemma Join_other_driver:
  "Join allSucceed freshDriver joinNet12 =
     (Error (Errorf ''Not our network''),
      freshDriver\<lparr>calls := [LinkAddCall endpoVeth, LinkSetUpCall endpoVeth,
                              InspectNetworkCall ''net12'']\<rparr>)"
proof -
  have len: "5 \<le> length (EndpointID joinNet12)"
    by (simp add: joinNet12_def)
  have add: "LinkAdd allSucceed (calls freshDriver) (vethPair (take 5 (EndpointID joinNet12))) = None"
    by (simp add: allSucceed_def)
  have up: "LinkSetUp allSucceed
           (calls freshDriver @ [LinkAddCall (vethPair (take 5 (EndpointID joinNet12)))])
           (vethPair (take 5 (EndpointID joinNet12))) = None"
    by (simp add: allSucceed_def)
  have v: "vethPair (take 5 (EndpointID joinNet12)) = endpoVeth"
    using vethPair_endpo by (simp add: joinNet12_def)
  show ?thesis
    unfolding Join_linked [OF len add up] v
    by (simp add: findNetworkState_def joinNet12_def freshDriver_def allSucceed_def
        foreignNetwork_def called_def)
qed

text \<open>
  Claim C2, amended. In a Join call whose network identifier has no registry entry, with
  the runtime client set, and whose link pair was created and brought up (the endpoint
  identifier has at least five bytes and both kernel calls succeed), exactly one fallback
  lookup is performed, after those two kernel calls. If the lookup reports a driver name
  other than this driver's, Join fails with the error \<open>Not our network\<close>; the calls it has
  made are the link-pair creation, the bring-up and the lookup, and nothing else: no port
  is attached and no bridge is initialised, the registry is unchanged, and the link pair
  is not removed again.
\<close>

theorem Join_unregistered:
  assumes unreg: "networks d (NetworkID r) = None"
    and cl: "client d"
    and len: "5 \<le> length (EndpointID r)"
    and add: "LinkAdd env (calls d) (vethPair (take 5 (EndpointID r))) = None"
    and up: "LinkSetUp env (calls d @ [LinkAddCall (vethPair (take 5 (EndpointID r)))])
           (vethPair (take 5 (EndpointID r))) = None"
  shows "length (filter isFallbackLookup (newCalls d (snd (Join env d r)))) = 1 \<and>
         (\<forall>network.
            InspectNetwork env
              (calls d @ [LinkAddCall (vethPair (take 5 (EndpointID r))),
                          LinkSetUpCall (vethPair (take 5 (EndpointID r)))])
              (NetworkID r) = Inr network \<and>
            NetworkDriver network \<noteq> name d \<longrightarrow>
            Join env d r =
              (Error (Errorf ''Not our network''),
               d\<lparr>calls := calls d @ [LinkAddCall (vethPair (take 5 (EndpointID r))),
                                      LinkSetUpCall (vethPair (take 5 (EndpointID r))),
                                      InspectNetworkCall (NetworkID r)]\<rparr>))"
proof
  let ?v = "vethPair (take 5 (EndpointID r))"
  let ?d2 = "d\<lparr>calls := calls d @ [LinkAddCall ?v, LinkSetUpCall ?v]\<rparr>"
  have unreg2: "networks ?d2 (NetworkID r) = None" and cl2: "client ?d2"
    using unreg cl by simp_all
  obtain res d3 where f: "findNetworkState env ?d2 (NetworkID r) = (res, d3)"
    by (cases "findNetworkState env ?d2 (NetworkID r)")
  have d3: "calls d3 = calls d @ [LinkAddCall ?v, LinkSetUpCall ?v, InspectNetworkCall (NetworkID r)] \<or>
            calls d3 = calls d @ [LinkAddCall ?v, LinkSetUpCall ?v, InspectNetworkCall (NetworkID r),
                                  InitBridgeCall (NetworkID r)]"
    using findNetworkState_unregistered_calls [OF unreg2 cl2, of env] f by simp
  show "length (filter isFallbackLookup (newCalls d (snd (Join env d r)))) = 1"
    using d3
    by (cases res)
      (auto simp: Join_linked [OF len add up] f newCalls_def called_def split: option.splits)
next
  let ?v = "vethPair (take 5 (EndpointID r))"
  show "\<forall>network.
            InspectNetwork env (calls d @ [LinkAddCall ?v, LinkSetUpCall ?v]) (NetworkID r) = Inr network \<and>
            NetworkDriver network \<noteq> name d \<longrightarrow>
            Join env d r =
              (Error (Errorf ''Not our network''),
               d\<lparr>calls := calls d @ [LinkAddCall ?v, LinkSetUpCall ?v,
                                      InspectNetworkCall (NetworkID r)]\<rparr>)"
    using unreg cl
    by (simp add: Join_linked [OF len add up] findNetworkState_def called_def)
qed

text \<open>
  Claim C2, amended, on a Join of the unregistered network \<open>net12\<close>, which the runtime
  reports as a network of the driver \<open>bridge\<close>.
\<close>

theorem Join_unregistered_witness:
  "length (filter isFallbackLookup
             (newCalls freshDriver (snd (Join allSucceed freshDriver joinNet12)))) = 1 \<and>
   Join allSucceed freshDriver joinNet12 =
     (Error (Errorf ''Not our network''),
      freshDriver\<lparr>calls := [LinkAddCall endpoVeth, LinkSetUpCall endpoVeth,
                              InspectNetworkCall ''net12'']\<rparr>) \<and>
   filter isSwitchMutation (newCalls freshDriver (snd (Join allSucceed freshDriver joinNet12))) = []"
proof -
  have unreg: "networks freshDriver (NetworkID joinNet12) = None"
    by (simp add: freshDriver_def)
  have cl: "client freshDriver"
    by (simp add: freshDriver_def)
  have len: "5 \<le> length (EndpointID joinNet12)"
    by (simp add: joinNet12_def)
  have add: "LinkAdd allSucceed (calls freshDriver) (vethPair (take 5 (EndpointID joinNet12))) = None"
    by (simp add: allSucceed_def)
  have up: "LinkSetUp allSucceed
           (calls freshDriver @ [LinkAddCall (vethPair (take 5 (EndpointID joinNet12)))])
           (vethPair (take 5 (EndpointID joinNet12))) = None"
    by (simp add: allSucceed_def)
  have v: "vethPair (take 5 (EndpointID joinNet12)) = endpoVeth"
    using vethPair_endpo by (simp add: joinNet12_def)
  have look: "InspectNetwork allSucceed
                (calls freshDriver @ [LinkAddCall endpoVeth, LinkSetUpCall endpoVeth])
                (NetworkID joinNet12) = Inr foreignNetwork"
    by (simp add: allSucceed_def)
  have other: "NetworkDriver foreignNetwork \<noteq> name freshDriver"
    by (simp add: foreignNetwork_def freshDriver_def)
  have ident: "NetworkID joinNet12 = ''net12''"
    by (simp add: joinNet12_def)
  have res: "Join allSucceed freshDriver joinNet12 =
     (Error (Errorf ''Not our network''),
      freshDriver\<lparr>calls := [LinkAddCall endpoVeth, LinkSetUpCall endpoVeth,
                              InspectNetworkCall ''net12'']\<rparr>)"
    using Join_unregistered [OF unreg cl len add up] look other
    by (simp add: v ident) (simp add: freshDriver_def)
  show ?thesis
    using Join_unregistered [OF unreg cl len add up] res
    by (simp add: newCalls_def) (simp add: freshDriver_def)
qed

text \<open>
  Claim C2 as stated fails on that call: the network is not registered, the runtime
  reports another driver and Join fails with \<open>Not our network\<close>, yet the kernel was
  changed twice before the lookup, by the link-pair creation and the bring-up.
\<close>

theorem Join_foreign_network_after_link_setup:
  "networks freshDriver (NetworkID joinNet12) = None \<and>
   fst (Join allSucceed freshDriver joinNet12) = Error (Errorf ''Not our network'') \<and>
   filter isKernelMutation (newCalls freshDriver (snd (Join allSucceed freshDriver joinNet12))) =
     [LinkAddCall endpoVeth, LinkSetUpCall endpoVeth]"
  by (simp add: Join_other_driver newCalls_def) (simp add: freshDriver_def)

text \<open>
  Claim C8, amended. Join on a registered network, with an endpoint identifier of at least
  five bytes, returns, when the link-pair creation, the bring-up and the port attachment
  succeed, the peer-side interface name \<open>ethc\<close> followed by the first five bytes of the
  endpoint identifier (so \<open>ethcendpo\<close> for \<open>endpoint12345\<close>), the prefix \<open>eth\<close>, and the
  gateway of the registered state.
\<close>

theorem Join_registered:
  assumes reg: "networks d (NetworkID r) = Some ns"
    and len: "5 \<le> length (EndpointID r)"
    and add: "LinkAdd env (calls d) (vethPair (take 5 (EndpointID r))) = None"
    and up: "LinkSetUp env (calls d @ [LinkAddCall (vethPair (take 5 (EndpointID r)))])
           (vethPair (take 5 (EndpointID r))) = None"
    and port: "addOvsVethPort env
           (calls d @ [LinkAddCall (vethPair (take 5 (EndpointID r))),
                       LinkSetUpCall (vethPair (take 5 (EndpointID r)))])
           (BridgeName ns) (ovsPortPrefix @ take 5 (EndpointID r)) 0 = None"
  shows "fst (Join env d r) =
           Ok \<lparr>SrcName = ''ethc'' @ take 5 (EndpointID r), DstPrefix = ''eth'',
               ResponseGateway = Gateway ns\<rparr>"
  using reg port
  by (simp add: Join_linked [OF len add up] findNetworkState_def vethPair_def containerEthName_def)

text \<open>
  Claim C8, amended, on the endpoint \<open>endpoint12345\<close> joining the network \<open>net12\<close>, created before with the
  gateway \<open>10.0.0.1\<close>.
\<close>

theorem Join_registered_witness:
  "networks net12Created ''net12'' = Some net12State \<and>
   Gateway net12State = ''10.0.0.1'' \<and>
   fst (Join allSucceed net12Created joinNet12) =
     Ok \<lparr>SrcName = ''ethcendpo'', DstPrefix = ''eth'', ResponseGateway = ''10.0.0.1''\<rparr>"
proof -
  have reg: "networks net12Created (NetworkID joinNet12) = Some net12State"
    by (simp add: net12Created_def joinNet12_def)
  have len: "5 \<le> length (EndpointID joinNet12)"
    by (simp add: joinNet12_def)
  have add: "LinkAdd allSucceed (calls net12Created) (vethPair (take 5 (EndpointID joinNet12))) = None"
    by (simp add: allSucceed_def)
  have up: "LinkSetUp allSucceed
           (calls net12Created @ [LinkAddCall (vethPair (take 5 (EndpointID joinNet12)))])
           (vethPair (take 5 (EndpointID joinNet12))) = None"
    by (simp add: allSucceed_def)
  have port: "addOvsVethPort allSucceed
           (calls net12Created @ [LinkAddCall (vethPair (take 5 (EndpointID joinNet12))),
                       LinkSetUpCall (vethPair (take 5 (EndpointID joinNet12)))])
           (BridgeName net12State) (ovsPortPrefix @ take 5 (EndpointID joinNet12)) 0 = None"
    by (simp add: allSucceed_def)
  show ?thesis
    using reg Join_registered [OF reg len add up port]
    by (simp add: joinNet12_def net12State_def)
qed

text \<open>
  Claim C8 as stated fails on its own scenario, run on a registry that holds \<open>net1\<close> with the gateway
  \<open>10.0.0.1\<close>: the peer name returned is \<open>ethcendpo\<close>, not \<open>ethcendp1\<close>.
\<close>

theorem Join_net1_endpoint12345:
  "networks net1Registered ''net1'' =
     Some \<lparr>BridgeName = ''ovsbr-net1'', MTU = 1500, Mode = ''nat'', Gateway = ''10.0.0.1'',
           GatewayMask = ''24'', FlatBindInterface = []\<rparr> \<and>
   fst (Join allSucceed net1Registered joinNet1) =
     Ok \<lparr>SrcName = ''ethcendpo'', DstPrefix = ''eth'', ResponseGateway = ''10.0.0.1''\<rparr> \<and>
   fst (Join allSucceed net1Registered joinNet1) \<noteq>
     Ok \<lparr>SrcName = ''ethcendp1'', DstPrefix = ''eth'', ResponseGateway = ''10.0.0.1''\<rparr>"
proof -
  have len: "5 \<le> length (EndpointID joinNet1)"
    by (simp add: joinNet1_def)
  have add: "LinkAdd allSucceed (calls net1Registered) (vethPair (take 5 (EndpointID joinNet1))) = None"
    by (simp add: allSucceed_def)
  have up: "LinkSetUp allSucceed
           (calls net1Registered @ [LinkAddCall (vethPair (take 5 (EndpointID joinNet1)))])
           (vethPair (take 5 (EndpointID joinNet1))) = None"
    by (simp add: allSucceed_def)
  show ?thesis
    unfolding Join_linked [OF len add up]
    by (simp add: findNetworkState_def net1Registered_def joinNet1_def allSucceed_def
        vethPair_def containerEthName_def)
qed

subsection \<open>Leave\<close>

lemma Leave_long:
  assumes "5 \<le> length (EndpointID r)"
  shows "Leave env d r =
     (case networks d (NetworkID r) of
        None \<Rightarrow> (Panic NilDereference,
                 d\<lparr>calls := calls d @ [LinkDelCall (vethPair (take 5 (EndpointID r)))]\<rparr>)
      | Some ns \<Rightarrow>
          (case deletePort env (calls d @ [LinkDelCall (vethPair (take 5 (EndpointID r)))])
                  (BridgeName ns) (Sprintf env (ovsPortPrefix @ take 5 (EndpointID r))) of
             Some err \<Rightarrow> Error err
           | None \<Rightarrow> Ok (),
           d\<lparr>calls := calls d @
                 [LinkDelCall (vethPair (take 5 (EndpointID r))),
                  DeletePortCall (BridgeName ns)
                    (Sprintf env (ovsPortPrefix @ take 5 (EndpointID r)))]\<rparr>))"
  using assms
  by (simp add: Leave_def truncateID_long called_def Let_def split: option.splits)

lemma Leave_short:
  "length (EndpointID r) < 5 \<Longrightarrow> Leave env d r = (Panic SliceBoundsOutOfRange, d)"
  by (simp add: Leave_def truncateID_short)



text \<open>
  Claim C9. Leave never makes a fallback lookup. When the network identifier has no
  registry entry, Leave returns neither a value nor an error: it panics, on
  \<^verbatim>\<open>d.networks[r.NetworkID].BridgeName\<close> with a \<^verbatim>\<open>nil\<close> dereference after the link-pair
  deletion was attempted (or already in \<^verbatim>\<open>truncateID\<close>, when the endpoint identifier has
  fewer than five bytes), and the registry is unchanged.
\<close>

theorem Leave_unregistered:
  "filter isFallbackLookup (newCalls d (snd (Leave env d r))) = [] \<and>
   (networks d (NetworkID r) = None \<longrightarrow>
      (\<exists>p. fst (Leave env d r) = Panic p) \<and>
      (5 \<le> length (EndpointID r) \<longrightarrow>
         Leave env d r =
           (Panic NilDereference,
            d\<lparr>calls := calls d @ [LinkDelCall (vethPair (take 5 (EndpointID r)))]\<rparr>)) \<and>
      (length (EndpointID r) < 5 \<longrightarrow> Leave env d r = (Panic SliceBoundsOutOfRange, d)) \<and>
      networks (snd (Leave env d r)) = networks d)"
proof (cases "5 \<le> length (EndpointID r)")
  case True
  then show ?thesis
    by (simp add: Leave_long newCalls_def split: option.splits)
next
  case False
  then show ?thesis
    by (simp add: Leave_short newCalls_def)
qed

text \<open>
  Claim C9 on a Leave of the unregistered network \<open>net12\<close>.
\<close>

theorem Leave_unregistered_witness:
  "networks freshDriver (NetworkID leaveNet12) = None \<and>
   Leave allSucceed freshDriver leaveNet12 =
     (Panic NilDereference, freshDriver\<lparr>calls := [LinkDelCall endpoVeth]\<rparr>) \<and>
   filter isFallbackLookup (newCalls freshDriver (snd (Leave allSucceed freshDriver leaveNet12))) = []"
proof -
  note all = Leave_unregistered [of freshDriver allSucceed leaveNet12]
  have unreg: "networks freshDriver (NetworkID leaveNet12) = None"
    by (simp add: freshDriver_def)
  have len: "5 \<le> length (EndpointID leaveNet12)"
    by (simp add: leaveNet12_def)
  have v: "vethPair (take 5 (EndpointID leaveNet12)) = endpoVeth"
    using vethPair_endpo by (simp add: leaveNet12_def)
  have after: "freshDriver\<lparr>calls := calls freshDriver @
                   [LinkDelCall (vethPair (take 5 (EndpointID leaveNet12)))]\<rparr> =
               freshDriver\<lparr>calls := [LinkDelCall endpoVeth]\<rparr>"
    by (simp add: v freshDriver_def)
  have res: "Leave allSucceed freshDriver leaveNet12 =
          (Panic NilDereference, freshDriver\<lparr>calls := [LinkDelCall endpoVeth]\<rparr>)"
    using all unreg len unfolding after by blast
  have quiet: "filter isFallbackLookup
                 (newCalls freshDriver (snd (Leave allSucceed freshDriver leaveNet12))) = []"
    using all by blast
  show ?thesis
    by (intro conjI) (rule unreg, rule res, rule quiet)
qed

end
